theory Spec2Isabelle
  imports Complex_Main
begin

section \<open>Python values shared by the two modules\<close>

text \<open>
  The exceptions that the modelled code can raise.  \<open>sys.exit()\<close> raises
  \<open>SystemExit\<close>; the other constructors are the built-in exceptions of the same
  name.  \<open>NonFinite\<close> stands for a NumPy division by zero, whose result
  (\<open>inf\<close> or \<open>nan\<close>) has no counterpart in the number type used here.
\<close>

datatype error =
    SystemExit
  | KeyError
  | IndexError
  | TypeError
  | ValueError
  | ZeroDivisionError
  | NameError
  | AttributeError
  | NonFinite

section \<open>geometry.py\<close>

subsection \<open>The configuration dictionary\<close>

text \<open>
  The \<open>box\<close> dictionary maps the keys \<open>'x'\<close>, \<open>'y'\<close>, \<open>'z'\<close> to a list of two
  bounds and the key \<open>'label'\<close> to an integer or a list of integers (the types
  given in the docstring of class \<open>Geometry\<close>).  A value is never \<open>None\<close>.
  Numbers are exact: the rounding of the \<open>f8\<close> arithmetic is not part of the
  model.
\<close>

datatype box_value =
    Interval real real
  | LabelInt int
  | LabelList "int list"

type_synonym box = "string \<rightharpoonup> box_value"

text \<open>
  \<open>elements.py\<close> is not among the sources.  An element is represented by the two
  attributes that \<open>geometry.py\<close> reads from it.
\<close>

record element =
  label :: "int list"
  isfluid :: bool

text \<open>The keys of \<open>dico\<close> that \<open>geometry.py\<close> reads.\<close>

record dico =
  box :: "box option"
  elements :: "element list option"

subsection \<open>get\_box\<close>

definition get_box :: "dico \<Rightarrow> error + (nat \<times> box_value list)" where
  "get_box d =
     (case box d of
        None \<Rightarrow> Inl SystemExit
      | Some b \<Rightarrow>
          (case b ''x'' of
             None \<Rightarrow> Inl SystemExit
           | Some bx \<Rightarrow>
               (case b ''y'' of
                  None \<Rightarrow> Inr (1, [bx])
                | Some boxy \<Rightarrow>
                    (case b ''z'' of
                       None \<Rightarrow> Inr (2, [bx, boxy])
                     | Some boxz \<Rightarrow> Inr (3, [bx, boxy, boxz])))))"

subsection \<open>The process group\<close>

text \<open>
  \<open>mpi4py\<close> is an external library.  The calls that \<open>Geometry.__init__\<close> makes
  are parameters of the model: the size of \<open>COMM_WORLD\<close>, \<open>Compute_dims\<close>, and
  the cartesian communicator returned by \<open>Create_cart\<close> with its rank, its
  coordinates and its neighbours.
\<close>

record cart_comm =
  Get_rank :: int
  Get_coords :: "int \<Rightarrow> nat list"
  Shift :: "nat \<Rightarrow> int \<Rightarrow> int \<times> int"

record mpi_env =
  Get_size :: nat
  Compute_dims :: "nat \<Rightarrow> nat \<Rightarrow> nat list"
  Create_cart :: "nat list \<Rightarrow> bool list \<Rightarrow> cart_comm"

text \<open>A run on one process: one factor per dimension, coordinates zero.\<close>

definition serial_mpi :: mpi_env where
  "serial_mpi =
     \<lparr>Get_size = 1,
      Compute_dims = (\<lambda>n d. replicate d 1),
      Create_cart = (\<lambda>dims periods.
        \<lparr>Get_rank = 0,
         Get_coords = (\<lambda>r. replicate (length dims) 0),
         Shift = (\<lambda>i disp. (0, 0))\<rparr>)\<rparr>"


subsection \<open>Geometry\<close>

record geometry =
  dim :: nat
  bounds :: "(real \<times> real) list"
  isInterface :: "bool list"
  list_elem :: "element list"
  box_label :: "int list"

text \<open>
  \<open>np.asarray(self.bounds, dtype='f8')\<close>: every entry has to be a list of two
  numbers.
\<close>

fun asarray_f8 :: "box_value list \<Rightarrow> error + (real \<times> real) list" where
  "asarray_f8 [] = Inr []"
| "asarray_f8 (Interval a b # vs) =
     (case asarray_f8 vs of Inl e \<Rightarrow> Inl e | Inr bs \<Rightarrow> Inr ((a, b) # bs))"
| "asarray_f8 (v # vs) = Inl ValueError"

text \<open>
  Lines 107 to 113: \<open>t\<close> is computed from the global bounds, the upper bounds
  are assigned first and the lower bounds second, both from the global lower
  bounds.
\<close>

definition local_bounds :: "(real \<times> real) list \<Rightarrow> nat list \<Rightarrow> nat list \<Rightarrow> (real \<times> real) list" where
  "local_bounds bs split coords =
     (let lo = map fst bs;
          hi = map snd bs;
          t = map2 (\<lambda>w s. w / real s) (map2 (\<lambda>h l. h - l) hi lo) split;
          hi' = map2 (\<lambda>l u. l + u) lo (map2 (\<lambda>u c. u * real (c + 1)) t coords);
          lo' = map2 (\<lambda>l u. l + u) lo (map2 (\<lambda>u c. u * real c) t coords)
      in zip lo' hi')"

definition interfaces :: "cart_comm \<Rightarrow> nat \<Rightarrow> bool list" where
  "interfaces comm dm =
     fold (\<lambda>i acc.
             let voisins = Shift comm i 1;
                 acc1 = (if fst voisins \<noteq> Get_rank comm then acc[i * 2 := True] else acc)
             in (if snd voisins \<noteq> Get_rank comm then acc1[i * 2 + 1 := True] else acc1))
          [0..<dm] (replicate (2 * dm) False)"

text \<open>
  Lines 128 to 137.  A \<open>'label'\<close> entry that is neither an integer nor a list of
  integers is outside the documented input and is reported as \<open>TypeError\<close>.
\<close>

definition make_box_label :: "dico \<Rightarrow> nat \<Rightarrow> error + int list" where
  "make_box_label d dm =
     (case (case box d of None \<Rightarrow> None | Some b \<Rightarrow> b ''label'') of
        None \<Rightarrow> Inr (replicate (2 * dm) 0)
      | Some (LabelInt n) \<Rightarrow> Inr (replicate (2 * dm) n)
      | Some (LabelList ns) \<Rightarrow> Inr ns
      | Some (Interval a b) \<Rightarrow> Inl TypeError)"

definition Geometry_init :: "mpi_env \<Rightarrow> dico \<Rightarrow> error + geometry" where
  "Geometry_init env d =
     (case get_box d of
        Inl e \<Rightarrow> Inl e
      | Inr (dm, vs) \<Rightarrow>
          (let split = Compute_dims env (Get_size env) dm in
           case asarray_f8 vs of
             Inl e \<Rightarrow> Inl e
           | Inr bs \<Rightarrow>
               if length split \<noteq> dm then Inl ValueError
               else if 0 \<in> set split then Inl NonFinite
               else
                 (let comm = Create_cart env split (replicate dm True);
                      coords = Get_coords comm (Get_rank comm)
                  in if length coords \<noteq> dm then Inl ValueError
                     else
                       (case make_box_label d dm of
                          Inl e \<Rightarrow> Inl e
                        | Inr lab \<Rightarrow>
                            Inr \<lparr>dim = dm,
                                 bounds = local_bounds bs split coords,
                                 isInterface = interfaces comm dm,
                                 list_elem = (case elements d of None \<Rightarrow> [] | Some es \<Rightarrow> es),
                                 box_label = lab\<rparr>))))"



subsection \<open>Points of a box\<close>



text \<open>
  What the process group guarantees for \<open>dm\<close> dimensions: \<open>Compute_dims\<close> returns
  \<open>dm\<close> positive factors whose product is the number of processes, and the
  cartesian coordinates of a process are \<open>dm\<close> numbers below these factors.
\<close>

definition mpi_ok :: "mpi_env \<Rightarrow> nat \<Rightarrow> bool" where
  "mpi_ok env dm =
     (let split = Compute_dims env (Get_size env) dm;
          comm = Create_cart env split (replicate dm True);
          coords = Get_coords comm (Get_rank comm)
      in length split = dm \<and> 0 \<notin> set split \<and> prod_list split = Get_size env \<and>
         length coords = dm \<and> list_all2 (\<lambda>c s. c < s) coords split)"

section \<open>simulation.py\<close>

subsection \<open>Python and NumPy indexing\<close>

text \<open>
  An index \<open>k\<close> into an axis of length \<open>n\<close>: a negative index counts from the
  end, and an index outside \<open>-n .. n - 1\<close> raises \<open>IndexError\<close>.
\<close>

definition py_index :: "nat \<Rightarrow> int \<Rightarrow> error + nat" where
  "py_index n k =
     (if 0 \<le> k \<and> k < int n then Inr (nat k)
      else if - int n \<le> k \<and> k < 0 then Inr (nat (k + int n))
      else Inl IndexError)"

definition py_getitem :: "'a list \<Rightarrow> int \<Rightarrow> error + 'a" where
  "py_getitem xs k = (case py_index (length xs) k of Inl e \<Rightarrow> Inl e | Inr i \<Rightarrow> Inr (xs ! i))"

text \<open>
  A bound of \<open>slice(lo, hi)\<close> on an axis of length \<open>n\<close>: a negative bound counts
  from the end and the result is clipped to \<open>0 .. n\<close>.  The stop is excluded.
\<close>

definition slice_bound :: "nat \<Rightarrow> int \<Rightarrow> nat" where
  "slice_bound n k = (if k < 0 then nat (max (k + int n) 0) else min (nat k) n)"

text \<open>
  A NumPy array of \<open>float64\<close>: its shape and the value at every index.  Values
  are exact numbers.  A basic index returns a view; the model returns the
  values that the view shows at the time of the call.
\<close>

record ndarray =
  shape :: "nat list"
  item :: "nat list \<Rightarrow> real"

text \<open>\<open>a[k]\<close>\<close>

definition getitem0 :: "ndarray \<Rightarrow> int \<Rightarrow> error + ndarray" where
  "getitem0 a k =
     (case shape a of
        [] \<Rightarrow> Inl IndexError
      | n # rest \<Rightarrow>
          (case py_index n k of
             Inl e \<Rightarrow> Inl e
           | Inr i \<Rightarrow> Inr \<lparr>shape = rest, item = (\<lambda>idx. item a (i # idx))\<rparr>))"

text \<open>\<open>a[lo:hi]\<close>\<close>

definition getslice0 :: "ndarray \<Rightarrow> int \<Rightarrow> int \<Rightarrow> error + ndarray" where
  "getslice0 a lo hi =
     (case shape a of
        [] \<Rightarrow> Inl IndexError
      | n # rest \<Rightarrow>
          (let b = slice_bound n lo; e = slice_bound n hi
           in Inr \<lparr>shape = (e - b) # rest, item = (\<lambda>idx. item a ((b + hd idx) # tl idx))\<rparr>))"

text \<open>\<open>a[:, :, k]\<close>\<close>

definition getitem2 :: "ndarray \<Rightarrow> int \<Rightarrow> error + ndarray" where
  "getitem2 a k =
     (case shape a of
        n0 # n1 # n2 # rest \<Rightarrow>
          (case py_index n2 k of
             Inl e \<Rightarrow> Inl e
           | Inr i \<Rightarrow> Inr \<lparr>shape = n0 # n1 # rest, item = (\<lambda>idx. item a (take 2 idx @ i # drop 2 idx))\<rparr>)
      | _ \<Rightarrow> Inl IndexError)"

text \<open>\<open>a[:, :, lo:hi]\<close>\<close>

definition getslice2 :: "ndarray \<Rightarrow> int \<Rightarrow> int \<Rightarrow> error + ndarray" where
  "getslice2 a lo hi =
     (case shape a of
        n0 # n1 # n2 # rest \<Rightarrow>
          (let b = slice_bound n2 lo; e = slice_bound n2 hi
           in Inr \<lparr>shape = n0 # n1 # (e - b) # rest,
                   item = (\<lambda>idx. item a (take 2 idx @ (b + idx ! 2) # drop 3 idx))\<rparr>)
      | _ \<Rightarrow> Inl IndexError)"

text \<open>
  The values that an assignment writes into a target of shape \<open>tgt\<close>: the shape
  of the value is aligned with the target from the right, an axis of length 1
  is repeated, and axes that the value has in excess have to be of length 1.
  Other shapes raise \<open>ValueError\<close>.
\<close>

definition broadcast_to :: "ndarray \<Rightarrow> nat list \<Rightarrow> error + (nat list \<Rightarrow> real)" where
  "broadcast_to v tgt =
     (let sv = shape v;
          excess = length sv - length tgt;
          core = drop excess sv;
          d = length tgt - length core
      in if list_all (\<lambda>x. x = 1) (take excess sv) \<and>
            list_all2 (\<lambda>x y. x = y \<or> x = 1) core (drop d tgt)
         then Inr (\<lambda>idx. item v (replicate excess 0 @
                                   map2 (\<lambda>x i. if x = 1 then 0 else i) core (drop d idx)))
         else Inl ValueError)"

text \<open>\<open>a[k] = v\<close>\<close>

definition setitem0 :: "ndarray \<Rightarrow> int \<Rightarrow> ndarray \<Rightarrow> error + ndarray" where
  "setitem0 a k v =
     (case shape a of
        [] \<Rightarrow> Inl IndexError
      | n # rest \<Rightarrow>
          (case py_index n k of
             Inl e \<Rightarrow> Inl e
           | Inr i \<Rightarrow>
               (case broadcast_to v rest of
                  Inl e \<Rightarrow> Inl e
                | Inr f \<Rightarrow>
                    Inr (a\<lparr>item := (\<lambda>idx. if idx \<noteq> [] \<and> hd idx = i then f (tl idx)
                                        else item a idx)\<rparr>))))"

text \<open>\<open>a[:, :, k] = v\<close>\<close>

definition setitem2 :: "ndarray \<Rightarrow> int \<Rightarrow> ndarray \<Rightarrow> error + ndarray" where
  "setitem2 a k v =
     (case shape a of
        n0 # n1 # n2 # rest \<Rightarrow>
          (case py_index n2 k of
             Inl e \<Rightarrow> Inl e
           | Inr i \<Rightarrow>
               (case broadcast_to v (n0 # n1 # rest) of
                  Inl e \<Rightarrow> Inl e
                | Inr f \<Rightarrow>
                    Inr (a\<lparr>item := (\<lambda>idx. if 2 < length idx \<and> idx ! 2 = i
                                        then f (take 2 idx @ drop 3 idx)
                                        else item a idx)\<rparr>)))
      | _ \<Rightarrow> Inl IndexError)"

text \<open>\<open>a[:] = b[:]\<close>\<close>

definition copy_all :: "ndarray \<Rightarrow> ndarray \<Rightarrow> error + ndarray" where
  "copy_all a b =
     (if shape a = [] \<or> shape b = [] then Inl IndexError
      else (case broadcast_to b (shape a) of
              Inl e \<Rightarrow> Inl e
            | Inr f \<Rightarrow> Inr (a\<lparr>item := f\<rparr>)))"

text \<open>\<open>x[:, np.newaxis]\<close> and \<open>y[np.newaxis, :]\<close>\<close>

definition newaxis1 :: "ndarray \<Rightarrow> error + ndarray" where
  "newaxis1 a =
     (case shape a of
        [] \<Rightarrow> Inl IndexError
      | n # rest \<Rightarrow> Inr \<lparr>shape = n # 1 # rest, item = (\<lambda>idx. item a (take 1 idx @ drop 2 idx))\<rparr>)"

definition newaxis0 :: "ndarray \<Rightarrow> error + ndarray" where
  "newaxis0 a =
     (case shape a of
        [] \<Rightarrow> Inl IndexError
      | n # rest \<Rightarrow> Inr \<lparr>shape = 1 # n # rest, item = (\<lambda>idx. item a (tl idx))\<rparr>)"

text \<open>
  A routine that writes into an array it is given changes the values of the
  array and leaves its shape.
\<close>

definition in_place :: "ndarray \<Rightarrow> (nat list \<Rightarrow> real) \<Rightarrow> ndarray" where
  "in_place a f = a\<lparr>item := f\<rparr>"

subsection \<open>Domain, Scheme and Boundary\<close>

text \<open>
  \<open>domain.py\<close>, \<open>stencil.py\<close>, \<open>scheme.py\<close> and \<open>boundary.py\<close> are not among the
  sources.  A domain and a stencil are the attributes that \<open>simulation.py\<close>
  reads.
\<close>

record domain =
  domain_dim :: nat
  dx :: real
  Na :: "nat list"
  domain_x :: "ndarray list"
  in_or_out :: ndarray
  valin :: real

record stencil =
  nv :: "int list"
  nv_ptr :: "int list"

text \<open>
  The methods of the scheme are parameters of the model.  Each of them works
  in place on the arrays it is given, so it is represented by the values it
  leaves in the arrays it writes.  Which arrays a method writes follows its
  description in the specification of the scheme:
  \<^item> \<open>set_boundary_conditions(F, m, bc, nv_on_beg)\<close> may write \<open>F\<close> and \<open>m\<close>;
  \<^item> \<open>transport(F)\<close> writes \<open>F\<close>;
  \<^item> \<open>f2m(F, m)\<close> writes \<open>m\<close>;
  \<^item> \<open>relaxation(m)\<close> and \<open>equilibrium(m)\<close> write \<open>m\<close>;
  \<^item> \<open>m2f(m, F)\<close> writes \<open>F\<close>;
  \<^item> \<open>onetimestep(m, F, Fold, in_or_out, valin)\<close> may write its three arrays
    \<open>m\<close>, \<open>F\<close> and \<open>Fold\<close>.
\<close>

record 'bc scheme =
  scheme_dim :: nat
  la :: real
  scheme_nv_on_beg :: bool
  scheme_stencil :: stencil
  set_boundary_conditions ::
    "ndarray \<Rightarrow> ndarray \<Rightarrow> 'bc \<Rightarrow> bool \<Rightarrow> (nat list \<Rightarrow> real) \<times> (nat list \<Rightarrow> real)"
  transport :: "ndarray \<Rightarrow> nat list \<Rightarrow> real"
  f2m :: "ndarray \<Rightarrow> ndarray \<Rightarrow> nat list \<Rightarrow> real"
  relaxation :: "ndarray \<Rightarrow> nat list \<Rightarrow> real"
  m2f :: "ndarray \<Rightarrow> ndarray \<Rightarrow> nat list \<Rightarrow> real"
  equilibrium :: "ndarray \<Rightarrow> nat list \<Rightarrow> real"
  onetimestep ::
    "ndarray \<Rightarrow> ndarray \<Rightarrow> ndarray \<Rightarrow> ndarray \<Rightarrow> real \<Rightarrow>
       (nat list \<Rightarrow> real) \<times> (nat list \<Rightarrow> real) \<times> (nat list \<Rightarrow> real)"

subsection \<open>The configuration dictionary of a simulation\<close>

text \<open>
  An argument of an initialising function: an array of coordinates or a
  number.  An entry \<open>k: v\<close> of \<open>s['init']\<close> is the key \<open>k\<close>, the function \<open>v[0]\<close>
  and the remaining components \<open>v[1:]\<close> of the tuple \<open>v\<close>.
\<close>

datatype arg = Array ndarray | Number real

type_synonym init_entry = "int \<times> (arg list \<Rightarrow> ndarray) \<times> arg list list"

record scheme_dico =
  init :: "init_entry list option"

record simu_dico = dico +
  inittype :: "string option"
  schemes :: "scheme_dico list option"

text \<open>
  The classes that the constructor instantiates, and the values that
  \<open>np.empty\<close> finds in the memory of the array with the given name.
\<close>

record 'bc classes =
  Domain :: "simu_dico \<Rightarrow> error + domain"
  Scheme :: "simu_dico \<Rightarrow> bool \<Rightarrow> error + 'bc scheme"
  Boundary :: "domain \<Rightarrow> simu_dico \<Rightarrow> error + 'bc"
  np_empty :: "string \<Rightarrow> nat list \<Rightarrow> real"

subsection \<open>Simulation\<close>

text \<open>
  The calls that a simulation has made, in order: the allocations of the
  constructor and the calls of the methods of the scheme.
\<close>

datatype event =
    Alloc_m
  | Alloc_F
  | Alloc_Fold
  | Call_Boundary
  | Call_set_boundary_conditions
  | Call_transport
  | Call_f2m
  | Call_relaxation
  | Call_m2f
  | Call_equilibrium
  | Call_onetimestep

text \<open>
  The attributes of a simulation.  \<open>buf_m\<close>, \<open>buf_F\<close> and \<open>buf_Fold\<close> are the
  attributes \<open>_m\<close>, \<open>_F\<close> and \<open>_Fold\<close>; the last one exists only when
  \<open>nv_on_beg\<close> is false.  \<open>trace\<close> records the calls made so far.  The times
  \<open>t\<close> and \<open>dt\<close>, the step \<open>dx\<close> and the speed \<open>la\<close> are floats in the program
  and exact numbers here.
\<close>

record 'bc simulation =
  sim_domain :: domain
  sim_scheme :: "'bc scheme"
  t :: real
  nt :: int
  dt :: real
  sim_dim :: nat
  nv_on_beg :: bool
  buf_m :: ndarray
  buf_F :: ndarray
  buf_Fold :: "ndarray option"
  bc :: 'bc
  trace :: "event list"

text \<open>
  The second index of the accessors \<open>m[i, j]\<close> and \<open>F[i, j]\<close>: an integer or
  \<open>slice(start, stop)\<close>, where \<open>None\<close> stands for a bound that is not given.
\<close>

datatype index = Index int | Slice "int option" "int option"

text \<open>The getter of \<open>m\<close>, lines 108 to 125.\<close>

definition m_getter :: "'bc simulation \<Rightarrow> int \<Rightarrow> index \<Rightarrow> error + ndarray" where
  "m_getter s i j =
     (let st = scheme_stencil (sim_scheme s) in
      case j of
        Slice start stop \<Rightarrow>
          (let jstart = (case start of None \<Rightarrow> 0 | Some a \<Rightarrow> a) in
           case (case stop of
                   None \<Rightarrow> (case py_getitem (nv st) i of Inl e \<Rightarrow> Inl e | Inr n \<Rightarrow> Inr (n - 1))
                 | Some b \<Rightarrow> Inr b) of
             Inl e \<Rightarrow> Inl e
           | Inr jstop \<Rightarrow>
               (case py_getitem (nv_ptr st) i of
                  Inl e \<Rightarrow> Inl e
                | Inr p \<Rightarrow>
                    if nv_on_beg s then getslice0 (buf_m s) (p + jstart) (p + jstop)
                    else getslice2 (buf_m s) (p + jstart) (p + jstop)))
      | Index k \<Rightarrow>
          (case py_getitem (nv_ptr st) i of
             Inl e \<Rightarrow> Inl e
           | Inr p \<Rightarrow>
               if nv_on_beg s then getitem0 (buf_m s) (p + k) else getitem2 (buf_m s) (p + k)))"

text \<open>
  The getter of \<open>F\<close>, lines 134 to 139.  It has no branch for a slice: the sum
  of an integer and a slice raises \<open>TypeError\<close>.
\<close>

definition F_getter :: "'bc simulation \<Rightarrow> int \<Rightarrow> index \<Rightarrow> error + ndarray" where
  "F_getter s i j =
     (case py_getitem (nv_ptr (scheme_stencil (sim_scheme s))) i of
        Inl e \<Rightarrow> Inl e
      | Inr p \<Rightarrow>
          (case j of
             Slice start stop \<Rightarrow> Inl TypeError
           | Index k \<Rightarrow>
               if nv_on_beg s then getitem0 (buf_F s) (p + k) else getitem2 (buf_F s) (p + k)))"



text \<open>The calls of the methods of the scheme on the arrays of the simulation.\<close>

definition call_set_boundary_conditions :: "'bc simulation \<Rightarrow> 'bc simulation" where
  "call_set_boundary_conditions s =
     (let w = set_boundary_conditions (sim_scheme s) (buf_F s) (buf_m s) (bc s) (nv_on_beg s)
      in s\<lparr>buf_F := in_place (buf_F s) (fst w),
            buf_m := in_place (buf_m s) (snd w),
            trace := trace s @ [Call_set_boundary_conditions]\<rparr>)"

definition call_transport :: "'bc simulation \<Rightarrow> 'bc simulation" where
  "call_transport s =
     s\<lparr>buf_F := in_place (buf_F s) (transport (sim_scheme s) (buf_F s)),
       trace := trace s @ [Call_transport]\<rparr>"

definition call_f2m :: "'bc simulation \<Rightarrow> 'bc simulation" where
  "call_f2m s =
     s\<lparr>buf_m := in_place (buf_m s) (f2m (sim_scheme s) (buf_F s) (buf_m s)),
       trace := trace s @ [Call_f2m]\<rparr>"

definition call_relaxation :: "'bc simulation \<Rightarrow> 'bc simulation" where
  "call_relaxation s =
     s\<lparr>buf_m := in_place (buf_m s) (relaxation (sim_scheme s) (buf_m s)),
       trace := trace s @ [Call_relaxation]\<rparr>"

definition call_m2f :: "'bc simulation \<Rightarrow> 'bc simulation" where
  "call_m2f s =
     s\<lparr>buf_F := in_place (buf_F s) (m2f (sim_scheme s) (buf_m s) (buf_F s)),
       trace := trace s @ [Call_m2f]\<rparr>"

definition call_equilibrium :: "'bc simulation \<Rightarrow> 'bc simulation" where
  "call_equilibrium s =
     s\<lparr>buf_m := in_place (buf_m s) (equilibrium (sim_scheme s) (buf_m s)),
       trace := trace s @ [Call_equilibrium]\<rparr>"

text \<open>
  A method that fails returns the calls made before the failure and the
  exception.
\<close>

type_synonym failure = "event list \<times> error"

text \<open>
  Lines 156 to 162: the coordinates handed to the initialising functions.  For
  a dimension other than 1 and 2 the name \<open>coords\<close> is not bound.
\<close>

definition init_coords :: "'bc simulation \<Rightarrow> error + arg list option" where
  "init_coords s =
     (if sim_dim s = 1 then
        (case py_getitem (domain_x (sim_domain s)) 0 of
           Inl e \<Rightarrow> Inl e
         | Inr x0 \<Rightarrow> Inr (Some [Array x0]))
      else if sim_dim s = 2 then
        (case py_getitem (domain_x (sim_domain s)) 0 of
           Inl e \<Rightarrow> Inl e
         | Inr x0 \<Rightarrow>
             (case newaxis1 x0 of
                Inl e \<Rightarrow> Inl e
              | Inr xc \<Rightarrow>
                  (case py_getitem (domain_x (sim_domain s)) 1 of
                     Inl e \<Rightarrow> Inl e
                   | Inr x1 \<Rightarrow>
                       (case newaxis0 x1 of
                          Inl e \<Rightarrow> Inl e
                        | Inr yc \<Rightarrow> Inr (Some [Array xc, Array yc])))))
      else Inr None)"

text \<open>
  Lines 170 to 179: the value of an initialising function is written at the
  index \<open>nv_ptr[ns] + k\<close> of the moments or of the distributions.
\<close>

definition write_init ::
  "'bc simulation \<Rightarrow> string \<Rightarrow> nat \<Rightarrow> int \<Rightarrow> ndarray \<Rightarrow> error + 'bc simulation" where
  "write_init s ity ns k v =
     (case py_getitem (nv_ptr (scheme_stencil (sim_scheme s))) (int ns) of
        Inl e \<Rightarrow> Inl e
      | Inr p \<Rightarrow>
          if ity = ''moments'' then
            (case (if nv_on_beg s then setitem0 (buf_m s) (p + k) v
                   else setitem2 (buf_m s) (p + k) v) of
               Inl e \<Rightarrow> Inl e
             | Inr a \<Rightarrow> Inr (s\<lparr>buf_m := a\<rparr>))
          else
            (case (if nv_on_beg s then setitem0 (buf_F s) (p + k) v
                   else setitem2 (buf_F s) (p + k) v) of
               Inl e \<Rightarrow> Inl e
             | Inr a \<Rightarrow> Inr (s\<lparr>buf_F := a\<rparr>)))"

text \<open>Lines 166 to 179: the entries of \<open>s['init']\<close> of the scheme number \<open>ns\<close>.\<close>

fun init_entries ::
  "'bc simulation \<Rightarrow> string \<Rightarrow> arg list option \<Rightarrow> nat \<Rightarrow> init_entry list \<Rightarrow> error + 'bc simulation"
where
  "init_entries s ity coords ns [] = Inr s"
| "init_entries s ity coords ns ((k, f, rest) # es) =
     (case coords of
        None \<Rightarrow> Inl NameError
      | Some cs \<Rightarrow>
          (let extraargs = (if length rest = 1 then hd rest else [])
           in case write_init s ity ns k (f (cs @ extraargs)) of
                Inl e \<Rightarrow> Inl e
              | Inr s' \<Rightarrow> init_entries s' ity coords ns es))"

text \<open>Lines 164 and 165: the loop over \<open>enumerate(schemes)\<close>.\<close>

fun init_schemes ::
  "'bc simulation \<Rightarrow> string \<Rightarrow> arg list option \<Rightarrow> nat \<Rightarrow> scheme_dico list \<Rightarrow> error + 'bc simulation"
where
  "init_schemes s ity coords ns [] = Inr s"
| "init_schemes s ity coords ns (sd # sds) =
     (case init sd of
        None \<Rightarrow> Inl KeyError
      | Some es \<Rightarrow>
          (case init_entries s ity coords ns es of
             Inl e \<Rightarrow> Inl e
           | Inr s' \<Rightarrow> init_schemes s' ity coords (Suc ns) sds))"

text \<open>Lines 181 to 185.\<close>

definition init_derive :: "string \<Rightarrow> 'bc simulation \<Rightarrow> 'bc simulation" where
  "init_derive ity s =
     (if ity = ''moments'' then call_m2f (call_equilibrium s) else call_f2m s)"

definition initialization :: "'bc simulation \<Rightarrow> simu_dico \<Rightarrow> failure + 'bc simulation" where
  "initialization s d =
     (case inittype d of
        None \<Rightarrow> Inl (trace s, KeyError)
      | Some ity \<Rightarrow>
          (case init_coords s of
             Inl e \<Rightarrow> Inl (trace s, e)
           | Inr coords \<Rightarrow>
               (case schemes d of
                  None \<Rightarrow> Inl (trace s, KeyError)
                | Some sds \<Rightarrow>
                    (case init_schemes s ity coords 0 sds of
                       Inl e \<Rightarrow> Inl (trace s, e)
                     | Inr s1 \<Rightarrow>
                         (let s2 = init_derive ity s1
                          in if \<not> nv_on_beg s2 then
                               (case buf_Fold s2 of
                                  None \<Rightarrow> Inl (trace s2, AttributeError)
                                | Some fo \<Rightarrow>
                                    (case copy_all fo (buf_F s2) of
                                       Inl e \<Rightarrow> Inl (trace s2, e)
                                     | Inr fo' \<Rightarrow> Inr (s2\<lparr>buf_Fold := Some fo'\<rparr>)))
                             else Inr s2)))))"

text \<open>
  Lines 60 to 76: the domain and the scheme are the arguments when they are
  given and are built from the dictionary otherwise; a \<open>KeyError\<close> of the
  construction ends in \<open>sys.exit()\<close>.
\<close>

definition get_domain :: "'bc classes \<Rightarrow> simu_dico \<Rightarrow> domain option \<Rightarrow> error + domain" where
  "get_domain cls d arg =
     (case arg of
        Some dmn \<Rightarrow> Inr dmn
      | None \<Rightarrow>
          (case Domain cls d of
             Inl e \<Rightarrow> (if e = KeyError then Inl SystemExit else Inl e)
           | Inr dmn \<Rightarrow> Inr dmn))"

definition get_scheme ::
  "'bc classes \<Rightarrow> simu_dico \<Rightarrow> 'bc scheme option \<Rightarrow> bool \<Rightarrow> error + 'bc scheme" where
  "get_scheme cls d arg nvb =
     (case arg of
        Some sch \<Rightarrow> Inr sch
      | None \<Rightarrow>
          (case Scheme cls d nvb of
             Inl e \<Rightarrow> (if e = KeyError then Inl SystemExit else Inl e)
           | Inr sch \<Rightarrow> Inr sch))"

text \<open>Lines 92 to 100: the shape of the arrays.\<close>

definition msize :: "bool \<Rightarrow> nat \<Rightarrow> nat list \<Rightarrow> nat list" where
  "msize nvb nlast na = (if nvb then [nlast] @ rev na else rev na @ [nlast])"

text \<open>
  Lines 78 to 105: the attributes of the object when \<open>initialization\<close> is
  called.  The three arrays are allocated with the same shape and hold what
  \<open>np.empty\<close> finds.
\<close>

definition new_simulation ::
  "'bc classes \<Rightarrow> domain \<Rightarrow> 'bc scheme \<Rightarrow> nat \<Rightarrow> 'bc \<Rightarrow> 'bc simulation" where
  "new_simulation cls dmn sch nlast b =
     (let nvb = scheme_nv_on_beg sch;
          sz = msize nvb nlast (Na dmn)
      in \<lparr>sim_domain = dmn,
          sim_scheme = sch,
          t = 0,
          nt = 0,
          dt = dx dmn / la sch,
          sim_dim = domain_dim dmn,
          nv_on_beg = nvb,
          buf_m = \<lparr>shape = sz, item = np_empty cls ''_m''\<rparr>,
          buf_F = \<lparr>shape = sz, item = np_empty cls ''_F''\<rparr>,
          buf_Fold = (if nvb then None else Some \<lparr>shape = sz, item = np_empty cls ''_Fold''\<rparr>),
          bc = b,
          trace = [Alloc_m, Alloc_F] @ (if nvb then [] else [Alloc_Fold]) @ [Call_Boundary]\<rparr>)"

text \<open>
  The constructor, lines 53 to 106.  The division of line 80 raises
  \<open>ZeroDivisionError\<close> for a lattice speed 0, and the assertion of line 82 is
  enabled.
\<close>

definition Simulation_init ::
  "'bc classes \<Rightarrow> simu_dico \<Rightarrow> domain option \<Rightarrow> 'bc scheme option \<Rightarrow> bool \<Rightarrow>
     failure + 'bc simulation" where
  "Simulation_init cls d domain_arg scheme_arg nvb_arg =
     (case get_domain cls d domain_arg of
        Inl e \<Rightarrow> Inl ([], e)
      | Inr dmn \<Rightarrow>
          (case get_scheme cls d scheme_arg nvb_arg of
             Inl e \<Rightarrow> Inl ([], e)
           | Inr sch \<Rightarrow>
               if la sch = 0 then Inl ([], ZeroDivisionError)
               else if domain_dim dmn \<noteq> scheme_dim sch then Inl ([], SystemExit)
               else
                 (case py_getitem (nv_ptr (scheme_stencil sch)) (- 1) of
                    Inl e \<Rightarrow> Inl ([], e)
                  | Inr nlast \<Rightarrow>
                      if nlast < 0 then Inl ([], ValueError)
                      else
                        (case Boundary cls dmn d of
                           Inl e \<Rightarrow>
                             Inl ([Alloc_m, Alloc_F] @
                                  (if scheme_nv_on_beg sch then [] else [Alloc_Fold]) @
                                  [Call_Boundary], e)
                         | Inr b \<Rightarrow>
                             initialization (new_simulation cls dmn sch (nat nlast) b) d))))"

text \<open>
  Lines 199 to 203: the copy of \<open>_F\<close> into \<open>_Fold\<close>, the call of \<open>onetimestep\<close> on
  \<open>_m\<close>, \<open>_F\<close> and \<open>_Fold\<close>, and the exchange of the names \<open>_F\<close> and \<open>_Fold\<close>.
\<close>

definition fused_step :: "'bc simulation \<Rightarrow> failure + 'bc simulation" where
  "fused_step s =
     (case buf_Fold s of
        None \<Rightarrow> Inl (trace s, AttributeError)
      | Some fo \<Rightarrow>
          (case copy_all fo (buf_F s) of
             Inl e \<Rightarrow> Inl (trace s, e)
           | Inr fo1 \<Rightarrow>
               (let w = onetimestep (sim_scheme s) (buf_m s) (buf_F s) fo1
                          (in_or_out (sim_domain s)) (valin (sim_domain s));
                    m2 = in_place (buf_m s) (fst w);
                    F2 = in_place (buf_F s) (fst (snd w));
                    Fold2 = in_place fo1 (snd (snd w));
                    ftmp = Fold2
                in Inr (s\<lparr>buf_m := m2,
                          buf_Fold := Some F2,
                          buf_F := ftmp,
                          trace := trace s @ [Call_onetimestep]\<rparr>))))"

text \<open>\<open>one_time_step\<close>, lines 190 to 206.\<close>

definition one_time_step :: "'bc simulation \<Rightarrow> failure + 'bc simulation" where
  "one_time_step s =
     (let s1 = call_set_boundary_conditions s
      in case (if nv_on_beg s1
               then Inr (call_m2f (call_relaxation (call_f2m (call_transport s1))))
               else fused_step s1) of
           Inl e \<Rightarrow> Inl e
         | Inr s2 \<Rightarrow> Inr (s2\<lparr>t := t s2 + dt s2, nt := nt s2 + 1\<rparr>))"



subsection \<open>A small configuration\<close>

text \<open>
  A one-dimensional domain of three nodes, one scheme of two velocities, and
  methods of the scheme that can be told apart by their results.  The
  theorems below are exercised on it.
\<close>

definition example_domain :: domain where
  "example_domain =
     \<lparr>domain_dim = 1, dx = 1 / 2, Na = [3],
      domain_x = [\<lparr>shape = [3], item = (\<lambda>idx. real (hd idx))\<rparr>],
      in_or_out = \<lparr>shape = [3], item = (\<lambda>idx. 0)\<rparr>,
      valin = 0\<rparr>"

definition example_scheme :: "bool \<Rightarrow> unit scheme" where
  "example_scheme nvb =
     \<lparr>scheme_dim = 1, la = 2, scheme_nv_on_beg = nvb,
      scheme_stencil = \<lparr>nv = [2], nv_ptr = [0, 2]\<rparr>,
      set_boundary_conditions = (\<lambda>F m b nvb. (item F, item m)),
      transport = (\<lambda>F idx. item F idx + 1),
      f2m = (\<lambda>F m idx. 2 * item F idx),
      relaxation = (\<lambda>m idx. item m idx + 3),
      m2f = (\<lambda>m F idx. item m idx / 2),
      equilibrium = (\<lambda>m idx. item m idx + 5),
      onetimestep = (\<lambda>m F Fold io v. (item m, item F, item Fold))\<rparr>"

definition example_classes :: "unit classes" where
  "example_classes =
     \<lparr>Domain = (\<lambda>d. Inr example_domain),
      Scheme = (\<lambda>d nvb. Inr (example_scheme nvb)),
      Boundary = (\<lambda>dmn d. Inr ()),
      np_empty = (\<lambda>name idx. 0)\<rparr>"

text \<open>An initialising function: the array of the first coordinate.\<close>

definition first_array :: "arg list \<Rightarrow> ndarray" where
  "first_array args =
     (case args of Array a # rest \<Rightarrow> a | _ \<Rightarrow> \<lparr>shape = [], item = (\<lambda>idx. 0)\<rparr>)"

definition example_dico :: "string \<Rightarrow> simu_dico" where
  "example_dico ity =
     \<lparr>box = Some [''x'' \<mapsto> Interval 0 1], elements = None,
      inittype = Some ity,
      schemes = Some [\<lparr>init = Some [(0, first_array, [])]\<rparr>]\<rparr>"

definition example_simulation :: "unit simulation" where
  "example_simulation =
     \<lparr>sim_domain = example_domain, sim_scheme = example_scheme True,
      t = 0, nt = 0, dt = 1 / 4, sim_dim = 1, nv_on_beg = True,
      buf_m = \<lparr>shape = [2, 3], item = (\<lambda>idx. real (10 * hd idx + hd (tl idx)))\<rparr>,
      buf_F = \<lparr>shape = [2, 3], item = (\<lambda>idx. real (100 * hd idx + hd (tl idx)))\<rparr>,
      buf_Fold = None, bc = (), trace = []\<rparr>"

section \<open>Properties of geometry.py\<close>

text \<open>
  Claim C9.  \<open>get_box\<close> infers the spatial dimension only from the keys of the box
  dictionary: with \<open>'x'\<close> present, the dimension is 1 when \<open>'y'\<close> is absent, 2 when
  \<open>'y'\<close> is present and \<open>'z'\<close> is absent, 3 when both are present, and the bounds
  are the values of the keys counted, in the order x, y, z.  A \<open>'z'\<close> entry
  without a \<open>'y'\<close> entry is ignored: the dimension is 1 and the returned bounds
  hold the \<open>'x'\<close> bounds only.
\<close>

theorem get_box_dim_from_keys:
  assumes "box d = Some b" and "b ''x'' = Some bx"
  shows "map_sum id fst (get_box d) =
           Inr (if ''y'' \<in> dom b then (if ''z'' \<in> dom b then 3 else 2) else 1) \<and>
         (b ''y'' = None \<longrightarrow> get_box d = Inr (1, [bx])) \<and>
         (b ''y'' = Some boxy \<and> b ''z'' = None \<longrightarrow> get_box d = Inr (2, [bx, boxy])) \<and>
         (b ''y'' = Some boxy \<and> b ''z'' = Some boxz \<longrightarrow>
            get_box d = Inr (3, [bx, boxy, boxz])) \<and>
         (b ''y'' = None \<and> b ''z'' = Some boxz \<longrightarrow> get_box d = Inr (1, [bx]))"
  using assms by (auto simp: get_box_def dom_def split: option.splits)

theorem get_box_dim_from_keys_witness:
  "map_sum id fst
     (get_box \<lparr>box = Some [''x'' \<mapsto> Interval 0 1, ''z'' \<mapsto> Interval 2 3], elements = None\<rparr>)
     = Inr 1 \<and>
   get_box \<lparr>box = Some [''x'' \<mapsto> Interval 0 1, ''z'' \<mapsto> Interval 2 3], elements = None\<rparr>
     = Inr (1, [Interval 0 1])"
  using get_box_dim_from_keys
    [of "\<lparr>box = Some [''x'' \<mapsto> Interval 0 1, ''z'' \<mapsto> Interval 2 3], elements = None\<rparr>"
        "[''x'' \<mapsto> Interval 0 1, ''z'' \<mapsto> Interval 2 3]" "Interval 0 1"
        "Interval 0 1" "Interval 2 3"]
  by simp

subsection \<open>The local bounds\<close>


lemma local_bounds_nth:
  assumes "length split = length bs" "length coords = length bs" "k < length bs"
  shows "local_bounds bs split coords ! k =
     (fst (bs ! k) + (snd (bs ! k) - fst (bs ! k)) / real (split ! k) * real (coords ! k),
      fst (bs ! k) + (snd (bs ! k) - fst (bs ! k)) / real (split ! k) * real (coords ! k + 1))"
  using assms by (simp add: local_bounds_def Let_def)








lemma asarray_f8_length: "asarray_f8 vs = Inr bs \<Longrightarrow> length bs = length vs"
  by (induction vs arbitrary: bs rule: asarray_f8.induct) (auto split: sum.splits)

lemma get_box_length: "get_box d = Inr (dm, vs) \<Longrightarrow> length vs = dm \<and> 0 < dm"
  by (auto simp: get_box_def split: option.splits)


lemma Geometry_init_ok:
  assumes "get_box d = Inr (dm, vs)" and "asarray_f8 vs = Inr bs" and "mpi_ok env dm"
    and "make_box_label d dm = Inr lab"
  shows "Geometry_init env d =
     Inr \<lparr>dim = dm,
          bounds = local_bounds bs (Compute_dims env (Get_size env) dm)
            (Get_coords (Create_cart env (Compute_dims env (Get_size env) dm) (replicate dm True))
               (Get_rank (Create_cart env (Compute_dims env (Get_size env) dm) (replicate dm True)))),
          isInterface = interfaces (Create_cart env (Compute_dims env (Get_size env) dm) (replicate dm True)) dm,
          list_elem = (case elements d of None \<Rightarrow> [] | Some es \<Rightarrow> es),
          box_label = lab\<rparr>"
  using assms by (simp add: Geometry_init_def mpi_ok_def Let_def)

lemma mpi_ok_lengths:
  assumes "mpi_ok env dm" and "split = Compute_dims env (Get_size env) dm"
    and "coords = Get_coords (Create_cart env split (replicate dm True))
                    (Get_rank (Create_cart env split (replicate dm True)))"
  shows "length split = dm" "0 \<notin> set split" "prod_list split = Get_size env"
    "length coords = dm" "list_all2 (\<lambda>c s. c < s) coords split"
  using assms by (simp_all add: mpi_ok_def Let_def)



text \<open>
  Claim C6, as the code has it.  \<open>Geometry.__init__\<close> does not look at the
  extent of the box: for a configuration that is otherwise accepted, a
  dimension \<open>k\<close> whose two bounds are equal raises no error, and the geometry is
  built with the bounds \<open>[a, a]\<close> in that dimension.
\<close>

theorem Geometry_accepts_degenerate_box:
  assumes "get_box d = Inr (dm, vs)" and "asarray_f8 vs = Inr bs" and "mpi_ok env dm"
    and "make_box_label d dm = Inr lab"
    and "k < dm" and "bs ! k = (a, a)"
  shows "\<exists>g. Geometry_init env d = Inr g \<and> dim g = dm \<and> bounds g ! k = (a, a)"
proof -
  define split where "split = Compute_dims env (Get_size env) dm"
  define coords where "coords = Get_coords (Create_cart env split (replicate dm True))
                    (Get_rank (Create_cart env split (replicate dm True)))"
  note ok = mpi_ok_lengths[OF assms(3) split_def coords_def]
  have lbs: "length bs = dm"
    using asarray_f8_length[OF assms(2)] get_box_length[OF assms(1)] by simp
  have "local_bounds bs split coords ! k = (a, a)"
    using local_bounds_nth[of split bs coords k] ok(1,4) lbs assms(5,6) by simp
  then show ?thesis
    using Geometry_init_ok[OF assms(1-4)] by (simp add: split_def coords_def)
qed

theorem Geometry_accepts_degenerate_box_witness:
  "mpi_ok serial_mpi 2 \<and>
   (\<exists>g. Geometry_init serial_mpi
          \<lparr>box = Some [''x'' \<mapsto> Interval 0 1, ''y'' \<mapsto> Interval 3 3], elements = None\<rparr> = Inr g \<and>
        dim g = 2 \<and> bounds g ! 1 = (3, 3))"
proof -
  have h1: "get_box \<lparr>box = Some [''x'' \<mapsto> Interval 0 1, ''y'' \<mapsto> Interval 3 3], elements = None\<rparr>
              = Inr (2, [Interval 0 1, Interval 3 3])"
    by (simp add: get_box_def)
  have h2: "asarray_f8 [Interval 0 1, Interval 3 3] = Inr [(0, 1), (3, 3)]" by simp
  have h3: "mpi_ok serial_mpi 2" by (simp add: mpi_ok_def serial_mpi_def numeral_2_eq_2)
  have h4: "make_box_label \<lparr>box = Some [''x'' \<mapsto> Interval 0 1, ''y'' \<mapsto> Interval 3 3], elements = None\<rparr> 2
              = Inr [0, 0, 0, 0]"
    by (simp add: make_box_label_def numeral_eq_Suc)
  have h5: "(1::nat) < 2" by simp
  have h6: "[(0::real, 1::real), (3, 3)] ! 1 = (3, 3)" by simp
  show ?thesis using Geometry_accepts_degenerate_box[OF h1 h2 h3 h4 h5 h6] h3 by simp
qed

text \<open>
  Claim C6 as stated fails: the box \<open>{'x': [0, 0]}\<close> has zero extent and the
  constructor returns a geometry.
\<close>

theorem Geometry_degenerate_box_constructed:
  "Geometry_init serial_mpi \<lparr>box = Some [''x'' \<mapsto> Interval 0 0], elements = None\<rparr> =
     Inr \<lparr>dim = 1, bounds = [(0, 0)], isInterface = [False, False], list_elem = [],
          box_label = [0, 0]\<rparr>"
  by (simp add: Geometry_init_def get_box_def serial_mpi_def local_bounds_def interfaces_def
      make_box_label_def numeral_2_eq_2)

subsection \<open>Labels\<close>












section \<open>Properties of simulation.py\<close>

subsection \<open>Arrays\<close>

lemma in_place_shape: "shape (in_place a f) = shape a"
  by (simp add: in_place_def)






text \<open>The buffers of the moment-first path.\<close>

lemma one_time_step_nv_on_beg:
  assumes "nv_on_beg s"
  shows "one_time_step s =
     Inr (let sch = sim_scheme s;
              w = set_boundary_conditions sch (buf_F s) (buf_m s) (bc s) True;
              F1 = in_place (buf_F s) (fst w);
              m1 = in_place (buf_m s) (snd w);
              F2 = in_place F1 (transport sch F1);
              m2 = in_place m1 (f2m sch F2 m1);
              m3 = in_place m2 (relaxation sch m2);
              F3 = in_place F2 (m2f sch m3 F2)
          in s\<lparr>t := t s + dt s, nt := nt s + 1, buf_m := m3, buf_F := F3,
                trace := trace s @ [Call_set_boundary_conditions, Call_transport, Call_f2m,
                                    Call_relaxation, Call_m2f]\<rparr>)"
  using assms
  by (simp add: one_time_step_def call_set_boundary_conditions_def call_transport_def
      call_f2m_def call_relaxation_def call_m2f_def Let_def)

text \<open>
  The layout with \<open>nv_on_beg\<close> false: after \<open>set_boundary_conditions\<close>, the
  values of \<open>_F\<close> are copied into \<open>_Fold\<close>, \<open>onetimestep\<close> is called on \<open>_m\<close>,
  \<open>_F\<close> and \<open>_Fold\<close>, and the two names are exchanged: \<open>_F\<close> is then the array
  that was \<open>_Fold\<close>.
\<close>

lemma one_time_step_fused:
  assumes "\<not> nv_on_beg s" and "one_time_step s = Inr s'"
  shows "\<exists>fo fo1.
           buf_Fold s = Some fo \<and>
           copy_all fo (buf_F (call_set_boundary_conditions s)) = Inr fo1 \<and>
           (let s1 = call_set_boundary_conditions s;
                w = onetimestep (sim_scheme s) (buf_m s1) (buf_F s1) fo1
                      (in_or_out (sim_domain s)) (valin (sim_domain s))
            in buf_m s' = in_place (buf_m s1) (fst w) \<and>
               buf_Fold s' = Some (in_place (buf_F s1) (fst (snd w))) \<and>
               buf_F s' = in_place fo1 (snd (snd w))) \<and>
           trace s' = trace s @ [Call_set_boundary_conditions, Call_onetimestep]"
  using assms
  by (auto simp: one_time_step_def fused_step_def call_set_boundary_conditions_def Let_def
      split: option.splits sum.splits)





subsection \<open>Initialization and construction\<close>













subsection \<open>The time step and the constructor\<close>

text \<open>
  Claim C1.  In the layout with \<open>nv_on_beg\<close> true, a call of \<open>one_time_step\<close>
  returns, and it has applied in this order: \<open>set_boundary_conditions\<close> on
  \<open>_F\<close> (and \<open>_m\<close>), \<open>transport\<close> on \<open>_F\<close>, \<open>f2m\<close> computing \<open>_m\<close> from \<open>_F\<close>,
  \<open>relaxation\<close> on \<open>_m\<close>, and \<open>m2f\<close> computing \<open>_F\<close> from \<open>_m\<close>.  The calls that
  the step adds to the trace are these five, so \<open>set_boundary_conditions\<close> is
  called once and before \<open>transport\<close>.
\<close>

theorem one_time_step_sequence:
  assumes "nv_on_beg s"
  shows "\<exists>s'. one_time_step s = Inr s' \<and>
           (let sch = sim_scheme s;
                w = set_boundary_conditions sch (buf_F s) (buf_m s) (bc s) True;
                F1 = in_place (buf_F s) (fst w);
                m1 = in_place (buf_m s) (snd w);
                F2 = in_place F1 (transport sch F1);
                m2 = in_place m1 (f2m sch F2 m1);
                m3 = in_place m2 (relaxation sch m2);
                F3 = in_place F2 (m2f sch m3 F2)
            in buf_m s' = m3 \<and> buf_F s' = F3) \<and>
           trace s' = trace s @ [Call_set_boundary_conditions, Call_transport, Call_f2m,
                                 Call_relaxation, Call_m2f] \<and>
           count_list (drop (length (trace s)) (trace s')) Call_set_boundary_conditions = 1"
  using one_time_step_nv_on_beg[OF assms] by (simp add: Let_def)

theorem one_time_step_sequence_witness:
  "nv_on_beg example_simulation \<and>
   (\<exists>s'. one_time_step example_simulation = Inr s' \<and>
      item (buf_m s') [1, 2] = 209 \<and> item (buf_F s') [1, 2] = 209 / 2 \<and>
      trace s' = [Call_set_boundary_conditions, Call_transport, Call_f2m,
                  Call_relaxation, Call_m2f])"
proof -
  have h: "nv_on_beg example_simulation" by (simp add: example_simulation_def)
  from one_time_step_sequence[OF h] obtain s' where
    s': "one_time_step example_simulation = Inr s'"
    and b: "(let sch = sim_scheme example_simulation;
                w = set_boundary_conditions sch (buf_F example_simulation) (buf_m example_simulation) (bc example_simulation) True;
                F1 = in_place (buf_F example_simulation) (fst w);
                m1 = in_place (buf_m example_simulation) (snd w);
                F2 = in_place F1 (transport sch F1);
                m2 = in_place m1 (f2m sch F2 m1);
                m3 = in_place m2 (relaxation sch m2);
                F3 = in_place F2 (m2f sch m3 F2)
            in buf_m s' = m3 \<and> buf_F s' = F3)"
    and tr: "trace s' = trace example_simulation @ [Call_set_boundary_conditions, Call_transport, Call_f2m,
                                 Call_relaxation, Call_m2f]"
    by blast
  have "item (buf_m s') [1, 2] = 209 \<and> item (buf_F s') [1, 2] = 209 / 2"
    using b by (simp add: Let_def example_simulation_def example_scheme_def in_place_def)
  moreover have "trace s' = [Call_set_boundary_conditions, Call_transport, Call_f2m,
                  Call_relaxation, Call_m2f]"
    using tr by (simp add: example_simulation_def)
  ultimately show ?thesis using h s' by blast
qed








text \<open>
  Claim C5.  When the dimension of the domain differs from the dimension of
  the scheme, the constructor fails: with \<open>sys.exit()\<close>, or with the
  \<open>ZeroDivisionError\<close> of line 80 when the lattice speed is 0.  It has then
  made no call: none of the arrays \<open>_m\<close>, \<open>_F\<close> and \<open>_Fold\<close> is allocated, and
  no simulation is returned on which a step could run.
\<close>

theorem dimension_mismatch_is_fatal:
  assumes "get_domain cls d domain_arg = Inr dmn"
    and "get_scheme cls d scheme_arg nvb = Inr sch"
    and "domain_dim dmn \<noteq> scheme_dim sch"
  shows "Simulation_init cls d domain_arg scheme_arg nvb =
           Inl ([], if la sch = 0 then ZeroDivisionError else SystemExit)"
  using assms by (simp add: Simulation_init_def)

theorem dimension_mismatch_is_fatal_witness:
  "domain_dim example_domain \<noteq> scheme_dim ((example_scheme True)\<lparr>scheme_dim := 2\<rparr>) \<and>
   Simulation_init example_classes (example_dico ''moments'') None
     (Some ((example_scheme True)\<lparr>scheme_dim := 2\<rparr>)) True = Inl ([], SystemExit)"
proof -
  have h1: "get_domain example_classes (example_dico ''moments'') None = Inr example_domain"
    by (simp add: get_domain_def example_classes_def)
  have h2: "get_scheme example_classes (example_dico ''moments'')
              (Some ((example_scheme True)\<lparr>scheme_dim := 2\<rparr>)) True
            = Inr ((example_scheme True)\<lparr>scheme_dim := 2\<rparr>)"
    by (simp add: get_scheme_def)
  have h3: "domain_dim example_domain \<noteq> scheme_dim ((example_scheme True)\<lparr>scheme_dim := 2\<rparr>)"
    by (simp add: example_domain_def)
  show ?thesis using dimension_mismatch_is_fatal[OF h1 h2 h3] h3
    by (simp add: example_scheme_def)
qed

subsection \<open>The state arrays: initialization and accessors\<close>



text \<open>
  Claim C4 at a failing input.  The scheme has two velocity slots and \<open>_m\<close> has
  the shape \<open>(2, 3)\<close>.  \<open>m[0, :]\<close> returns the slot 0 only, an array of shape
  \<open>(1, 3)\<close>: the stop that is not given becomes \<open>nv[0] - 1 = 1\<close>, and a slice
  excludes its stop.  With the stop 2 given, both slots are returned.
  \<open>F[0, :]\<close> raises \<open>TypeError\<close>: the getter of \<open>F\<close> has no branch for a slice.
\<close>

theorem m_getter_open_slice_drops_last_slot:
  "nv (scheme_stencil (sim_scheme example_simulation)) = [2] \<and>
   shape (buf_m example_simulation) = [2, 3] \<and>
   map_sum id (\<lambda>a. (shape a, map (\<lambda>k. item a [0, k]) [0, 1, 2]))
     (m_getter example_simulation 0 (Slice None None)) = Inr ([1, 3], [0, 1, 2]) \<and>
   map_sum id shape (m_getter example_simulation 0 (Slice (Some 0) (Some 2))) = Inr [2, 3] \<and>
   F_getter example_simulation 0 (Slice None None) = Inl TypeError"
  by (simp add: m_getter_def F_getter_def example_simulation_def example_scheme_def
      py_getitem_def py_index_def getslice0_def slice_bound_def)

text \<open>
  The layout with \<open>nv_on_beg\<close> false indexes with \<open>[:, :, k]\<close>, which needs two
  spatial axes.  In one dimension the arrays have two axes, and the first
  write of \<open>initialization\<close> raises \<open>IndexError\<close>: the configuration that is
  constructed above with \<open>nv_on_beg\<close> true is not constructed with
  \<open>nv_on_beg\<close> false.
\<close>

lemma Simulation_init_nv_last_one_dimension:
  "Simulation_init example_classes (example_dico ''moments'') None None False =
     Inl ([Alloc_m, Alloc_F, Alloc_Fold, Call_Boundary], IndexError)"
  by (simp add: Simulation_init_def get_domain_def get_scheme_def example_classes_def
      example_dico_def example_domain_def example_scheme_def py_getitem_def py_index_def
      msize_def initialization_def init_coords_def first_array_def write_init_def setitem2_def
      new_simulation_def Let_def)

text \<open>
  With an integer \<open>j\<close>, both getters return the array at the combined index
  \<open>nv_ptr[i] + j\<close>.  With a start \<open>a\<close> and no stop, the getter of \<open>m\<close> returns
  \<open>nv[i] - 1 - a\<close> slots, one less than the slots from \<open>a\<close> to the last one.
\<close>

lemma m_getter_index:
  assumes "nv_on_beg s"
    and "py_getitem (nv_ptr (scheme_stencil (sim_scheme s))) i = Inr p"
  shows "m_getter s i (Index k) = getitem0 (buf_m s) (p + k) \<and>
         F_getter s i (Index k) = getitem0 (buf_F s) (p + k)"
  using assms by (simp add: m_getter_def F_getter_def)

lemma m_getter_open_slice_shape:
  assumes "nv_on_beg s"
    and "py_getitem (nv (scheme_stencil (sim_scheme s))) i = Inr n"
    and "py_getitem (nv_ptr (scheme_stencil (sim_scheme s))) i = Inr p"
    and "shape (buf_m s) = sz # rest"
    and "0 \<le> p" and "1 \<le> n" and "0 \<le> a" and "a \<le> n" and "p + n \<le> int sz"
  shows "map_sum id shape (m_getter s i (Slice (Some a) None)) = Inr (nat (n - 1 - a) # rest)"
  using assms
  by (auto simp: m_getter_def getslice0_def slice_bound_def Let_def min_def nat_diff_distrib)

end
